theory Spec2Isabelle
  imports Complex_Main "HOL-Library.Word"
begin

section \<open>JavaScript strings\<close>

text \<open>
  A JavaScript string is a sequence of 16-bit code units. ASCII literals of the source are
  written through \<open>js\<close>; the Chinese literals are given by their code units.
  A value of type \<open>string | undefined\<close> is a \<open>jstring option\<close>.
\<close>

type_synonym code_unit = "16 word"
type_synonym jstring = "code_unit list"

definition js :: "string \<Rightarrow> jstring" where
  "js s = map of_char s"

text \<open>\<open>a || d\<close> for a string-or-undefined \<open>a\<close>: undefined and the empty string are falsy.\<close>

fun orElse :: "jstring option \<Rightarrow> jstring \<Rightarrow> jstring" where
  "orElse None d = d"
| "orElse (Some s) d = (if s = [] then d else s)"

fun falsy :: "jstring option \<Rightarrow> bool" where
  "falsy None = True"
| "falsy (Some s) = (s = [])"

text \<open>
  A thrown value, as far as the handlers read it: \<open>error?.message\<close> and
  \<open>error?.toString()\<close>.
\<close>

datatype thrown = Thrown (message: "jstring option") (toString: "jstring option")

text \<open>\<open>error?.message || error?.toString() || 'Unknown error'\<close>\<close>

definition errorMessage :: "thrown \<Rightarrow> jstring" where
  "errorMessage e = orElse (message e) (orElse (toString e) (js ''Unknown error''))"

text \<open>The prefix \<open>'API\<dots>: '\<close> of the handlers (four Chinese characters after \<open>API\<close>).\<close>

definition api_failed_prefix :: jstring where
  "api_failed_prefix = js ''API'' @ [0x8BF7, 0x6C42, 0x5931, 0x8D25] @ js '': ''"

section \<open>The completion gateway (callAI, src/src/services/aiClient.ts)\<close>

record UserSettings =
  apiProvider :: jstring
  nvidiaApiKey :: jstring
  geminiApiKey :: jstring
  opencodeApiKey :: jstring
  nvidiaModel :: jstring
  geminiModel :: jstring
  opencodeModel :: jstring
  aiStyle :: jstring

text \<open>\<open>AIResponse\<close>: the fields \<open>text\<close> and \<open>error?\<close>.\<close>

record AIResponse =
  text_r :: jstring
  error_r :: "jstring option"

record AIOptions =
  temperature :: "rat option"
  maxTokens :: "nat option"
  systemPrompt :: "jstring option"

datatype role = System | User

text \<open>
  The one request a provider client sends: \<open>model.generateContent(prompt)\<close> of the Gemini
  client built from the key, or \<open>client.chat.completions.create\<close> of an OpenAI client built
  from a base URL and the key.
\<close>

datatype request =
    GenerateContent jstring jstring jstring
  | ChatCompletionsCreate jstring jstring jstring "(role \<times> jstring) list" rat nat

text \<open>
  The remote side: what each request answers, or the value it throws.
  \<open>generateContent\<close> answers \<open>result.response.text()\<close>; \<open>chatCreate\<close> answers
  \<open>completion.choices[0]?.message?.content\<close>, which may be undefined.
\<close>

record remote =
  generateContent :: "request \<Rightarrow> thrown + jstring"
  chatCreate :: "request \<Rightarrow> thrown + jstring option"

definition nvidia_baseURL :: jstring where
  "nvidia_baseURL = js ''https://integrate.api.nvidia.com/v1''"

definition opencode_baseURL :: jstring where
  "opencode_baseURL = js ''https://opencode.ai/zen/v1''"

definition messages_of :: "jstring option \<Rightarrow> jstring \<Rightarrow> (role \<times> jstring) list" where
  "messages_of sp prompt =
     (if falsy sp then [(User, prompt)] else [(System, orElse sp []), (User, prompt)])"

text \<open>
  The body of the \<open>try\<close> block of \<open>callAI\<close>: the value returned or thrown, and the
  requests issued, in order.
\<close>

definition callAI_try ::
  "remote \<Rightarrow> jstring \<Rightarrow> UserSettings option \<Rightarrow> AIOptions \<Rightarrow> (thrown + AIResponse) \<times> request list" where
  "callAI_try R prompt settings options =
    (let temp = (case temperature options of None \<Rightarrow> 3 / 10 | Some t \<Rightarrow> t);
         maxTok = (case maxTokens options of None \<Rightarrow> 4096 | Some n \<Rightarrow> n);
         sp = systemPrompt options;
         provider = map_option apiProvider settings
     in
       if falsy provider \<or> provider = Some (js ''gemini'') then
         let apiKey = orElse (map_option geminiApiKey settings) [];
             modelName = orElse (map_option geminiModel settings) (js ''gemini-2.5-flash-lite'');
             req = GenerateContent apiKey modelName prompt
         in (case generateContent R req of
               Inl e \<Rightarrow> (Inl e, [req])
             | Inr response \<Rightarrow> (Inr \<lparr>text_r = response, error_r = None\<rparr>, [req]))
       else if provider = Some (js ''nvidia'') then
         let apiKey = orElse (map_option nvidiaApiKey settings) [];
             modelName = orElse (map_option nvidiaModel settings) (js ''moonshotai/kimi-k2.5'')
         in if apiKey = [] then
              (Inr \<lparr>text_r = [], error_r = Some (js ''NVIDIA API key is missing'')\<rparr>, [])
            else
              let req = ChatCompletionsCreate nvidia_baseURL apiKey modelName
                          (messages_of sp prompt) temp maxTok
              in (case chatCreate R req of
                    Inl e \<Rightarrow> (Inl e, [req])
                  | Inr content \<Rightarrow> (Inr \<lparr>text_r = orElse content [], error_r = None\<rparr>, [req]))
       else if provider = Some (js ''opencode'') then
         let apiKey = orElse (map_option opencodeApiKey settings) [];
             modelName = orElse (map_option opencodeModel settings) (js ''big-pickle'')
         in if apiKey = [] then
              (Inr \<lparr>text_r = [], error_r = Some (js ''OpenCode API key is missing'')\<rparr>, [])
            else
              let req = ChatCompletionsCreate opencode_baseURL apiKey modelName
                          (messages_of sp prompt) temp maxTok
              in (case chatCreate R req of
                    Inl e \<Rightarrow> (Inl e, [req])
                  | Inr content \<Rightarrow> (Inr \<lparr>text_r = orElse content [], error_r = None\<rparr>, [req]))
       else (Inr \<lparr>text_r = [], error_r = Some (js ''Unknown API provider'')\<rparr>, []))"

text \<open>\<open>callAI\<close>: the \<open>try\<close> block under its \<open>catch\<close>.\<close>

definition callAI ::
  "remote \<Rightarrow> jstring \<Rightarrow> UserSettings option \<Rightarrow> AIOptions \<Rightarrow> (thrown + AIResponse) \<times> request list" where
  "callAI R prompt settings options =
    (case callAI_try R prompt settings options of
       (Inl e, reqs) \<Rightarrow>
         (Inr \<lparr>text_r = [], error_r = Some (api_failed_prefix @ errorMessage e)\<rparr>, reqs)
     | (Inr r, reqs) \<Rightarrow> (Inr r, reqs))"

section \<open>Regular expressions of the response interpreter\<close>

text \<open>
  The patterns of the source are sequences of single-character classes, each taken once or
  under a greedy \<open>*\<close> or \<open>+\<close>, with at most one capturing group around one class.
  \<open>rx_match\<close> is the backtracking matcher of the language at one start position: a greedy
  quantifier first takes one more character and, if the rest of the pattern then fails,
  falls back to the continuation at the current position.
\<close>

datatype quantifier = Once | Star | Plus

datatype atom = Atom "code_unit \<Rightarrow> bool" quantifier bool

type_synonym regex = "atom list"

text \<open>What a successful match gives: \<open>m[0]\<close> and the captured groups \<open>m[1], \<dots>\<close>.\<close>

type_synonym rx_result = "jstring \<times> jstring list"

fun greedy :: "(code_unit \<Rightarrow> bool) \<Rightarrow> (jstring \<Rightarrow> 'a option) \<Rightarrow> jstring \<Rightarrow> (jstring \<times> 'a) option" where
  "greedy c k [] = map_option (Pair []) (k [])"
| "greedy c k (x # xs) =
     (if c x then
        (case greedy c k xs of
           Some (t, r) \<Rightarrow> Some (x # t, r)
         | None \<Rightarrow> map_option (Pair []) (k (x # xs)))
      else map_option (Pair []) (k (x # xs)))"

definition captured :: "bool \<Rightarrow> jstring \<Rightarrow> jstring list" where
  "captured cap t = (if cap then [t] else [])"

fun rx_match :: "regex \<Rightarrow> jstring \<Rightarrow> rx_result option" where
  "rx_match [] s = Some ([], [])"
| "rx_match (Atom c Once cap # r) [] = None"
| "rx_match (Atom c Once cap # r) (x # xs) =
     (if c x then map_option (\<lambda>(u, gs). (x # u, captured cap [x] @ gs)) (rx_match r xs)
      else None)"
| "rx_match (Atom c Star cap # r) s =
     map_option (\<lambda>(t, (u, gs)). (t @ u, captured cap t @ gs)) (greedy c (rx_match r) s)"
| "rx_match (Atom c Plus cap # r) [] = None"
| "rx_match (Atom c Plus cap # r) (x # xs) =
     (if c x then
        map_option (\<lambda>(t, (u, gs)). (x # t @ u, captured cap (x # t) @ gs))
          (greedy c (rx_match r) xs)
      else None)"

text \<open>
  \<open>String.prototype.match\<close> with a pattern without the \<open>g\<close> flag: the match at the
  leftmost start position that has one (the end of the string is the last position tried).
\<close>

fun rx_search :: "regex \<Rightarrow> jstring \<Rightarrow> rx_result option" where
  "rx_search r [] = rx_match r []"
| "rx_search r (x # xs) =
     (case rx_match r (x # xs) of
        Some m \<Rightarrow> Some m
      | None \<Rightarrow> rx_search r xs)"

text \<open>\<open>m[1]\<close>; the patterns that use it have one group, which takes part in every match.\<close>

fun group1 :: "rx_result \<Rightarrow> jstring" where
  "group1 (m0, g # gs) = g"
| "group1 (m0, []) = []"

subsection \<open>Character classes\<close>

definition is_digit :: "code_unit \<Rightarrow> bool" where
  "is_digit c = (0x30 \<le> c \<and> c \<le> 0x39)"

text \<open>\<open>\s\<close>, and the characters \<open>trim\<close> strips: white space and line terminators.\<close>

definition is_space :: "code_unit \<Rightarrow> bool" where
  "is_space c =
     (c = 0x09 \<or> c = 0x0A \<or> c = 0x0B \<or> c = 0x0C \<or> c = 0x0D \<or> c = 0x20 \<or> c = 0xA0 \<or>
      c = 0x1680 \<or> (0x2000 \<le> c \<and> c \<le> 0x200A) \<or> c = 0x2028 \<or> c = 0x2029 \<or>
      c = 0x202F \<or> c = 0x205F \<or> c = 0x3000 \<or> c = 0xFEFF)"

definition is_line_terminator :: "code_unit \<Rightarrow> bool" where
  "is_line_terminator c = (c = 0x0A \<or> c = 0x0D \<or> c = 0x2028 \<or> c = 0x2029)"

text \<open>\<open>.\<close> without the \<open>s\<close> flag, \<open>[\s\S]\<close> and \<open>[^"]\<close>.\<close>

definition dot :: "code_unit \<Rightarrow> bool" where
  "dot c = (\<not> is_line_terminator c)"

definition any_unit :: "code_unit \<Rightarrow> bool" where
  "any_unit c = (is_space c \<or> \<not> is_space c)"

definition not_quote :: "code_unit \<Rightarrow> bool" where
  "not_quote c = (c \<noteq> 0x22)"

text \<open>
  The literal characters of a pattern under the \<open>i\<close> flag (without \<open>u\<close>): an ASCII
  letter of the pattern matches exactly its two cases, any other ASCII character itself.
\<close>

definition other_case :: "code_unit \<Rightarrow> code_unit" where
  "other_case c =
     (if 0x61 \<le> c \<and> c \<le> 0x7A then c - 0x20
      else if 0x41 \<le> c \<and> c \<le> 0x5A then c + 0x20 else c)"

definition lit_i :: "string \<Rightarrow> regex" where
  "lit_i s = map (\<lambda>c. Atom (\<lambda>x. x = of_char c \<or> x = other_case (of_char c)) Once False) s"

text \<open>\<open>trim()\<close> and \<open>parseInt(digits, 10)\<close> on a non-empty string of decimal digits
  (the only argument it is given; the result is exact, where a double rounds above
  \<open>2^53\<close>).\<close>

definition trim :: "jstring \<Rightarrow> jstring" where
  "trim s = rev (dropWhile is_space (rev (dropWhile is_space s)))"

definition parseInt10 :: "jstring \<Rightarrow> nat" where
  "parseInt10 ds = foldl (\<lambda>n c. 10 * n + (unat c - 48)) 0 ds"

section \<open>The template parser (parseTranslationResponse, src/unnamed/part_001)\<close>

text \<open>\<open>/Score:\s*(\d+)\s*\/\s*100/i\<close>\<close>

definition score_rx :: regex where
  "score_rx = lit_i ''Score:'' @ [Atom is_space Star False, Atom is_digit Plus True,
     Atom is_space Star False] @ lit_i ''/'' @ [Atom is_space Star False] @ lit_i ''100''"

text \<open>\<open>/Correct:\s*"([^"]+)"/i\<close>\<close>

definition correct_rx :: regex where
  "correct_rx = lit_i ''Correct:'' @ [Atom is_space Star False, Atom (\<lambda>x. x = 0x22) Once False,
     Atom not_quote Plus True, Atom (\<lambda>x. x = 0x22) Once False]"

text \<open>\<open>/Reason:\s*(.+)/i\<close>\<close>

definition reason_rx :: regex where
  "reason_rx = lit_i ''Reason:'' @ [Atom is_space Star False, Atom dot Plus True]"

record TranslationEvaluation =
  isCorrect :: bool
  score :: nat
  correctAnswer :: jstring
  feedback :: jstring

text \<open>The feedback used when the reason is missing (six Chinese characters).\<close>

definition cannot_evaluate :: jstring where
  "cannot_evaluate = [0x65E0, 0x6CD5, 0x8BC4, 0x4F30, 0x7B54, 0x6848]"

text \<open>
  No operation of the body throws on a string, so the \<open>catch\<close> branch of the source is
  never taken and the function is the body. The parameter \<open>userAnswer\<close> is not read.
\<close>

definition parseTranslationResponse :: "jstring \<Rightarrow> jstring \<Rightarrow> TranslationEvaluation" where
  "parseTranslationResponse response userAnswer =
    (let scoreMatch = rx_search score_rx response;
         correctMatch = rx_search correct_rx response;
         reasonMatch = rx_search reason_rx response;
         score = (case scoreMatch of Some m \<Rightarrow> parseInt10 (group1 m) | None \<Rightarrow> 0);
         correctAnswer = (case correctMatch of Some m \<Rightarrow> group1 m | None \<Rightarrow> []);
         feedback = (case reasonMatch of Some m \<Rightarrow> trim (group1 m) | None \<Rightarrow> cannot_evaluate)
     in \<lparr>isCorrect = (score \<ge> 70), score = score, correctAnswer = correctAnswer,
         feedback = feedback\<rparr>)"

section \<open>The JSON interpreters (extractVocabulary and evaluateAnswer, src/unnamed/part_001)\<close>

text \<open>
  The values \<open>JSON.parse\<close> returns. \<open>JSON.parse\<close> itself is the built-in of the
  language: the interpreters take it as the parameter \<open>JSON_parse\<close>, which returns the
  value or the exception thrown.
\<close>

datatype json =
    JNull
  | JBool bool
  | JNumber rat
  | JString jstring
  | JArray "json list"
  | JObject "(jstring \<times> json) list"

text \<open>\<open>/\[[\s\S]*\]/\<close> and \<open>/\{[\s\S]*\}/\<close>\<close>

definition span_rx :: "code_unit \<Rightarrow> code_unit \<Rightarrow> regex" where
  "span_rx l r = [Atom (\<lambda>x. x = l) Once False, Atom any_unit Star False, Atom (\<lambda>x. x = r) Once False]"

definition array_rx :: regex where
  "array_rx = span_rx 0x5B 0x5D"

definition object_rx :: regex where
  "object_rx = span_rx 0x7B 0x7D"

record VocabularyResult =
  words_v :: "json list"
  error_v :: "jstring option"

text \<open>
  \<open>extractVocabulary\<close> from the point where \<open>callAI\<close> has answered \<open>{text, error}\<close>;
  the exception of \<open>JSON.parse\<close> is caught by the \<open>catch\<close> of the function.
\<close>

definition interpretVocabulary :: "(jstring \<Rightarrow> thrown + json) \<Rightarrow> AIResponse \<Rightarrow> VocabularyResult" where
  "interpretVocabulary JSON_parse resp =
    (if \<not> falsy (error_r resp) \<or> text_r resp = [] then \<lparr>words_v = [], error_v = error_r resp\<rparr>
     else
       (case rx_search array_rx (text_r resp) of
          None \<Rightarrow> \<lparr>words_v = [], error_v = None\<rparr>
        | Some jsonMatch \<Rightarrow>
            (case JSON_parse (fst jsonMatch) of
               Inl e \<Rightarrow> \<lparr>words_v = [], error_v = Some (api_failed_prefix @ errorMessage e)\<rparr>
             | Inr (JArray ws) \<Rightarrow> \<lparr>words_v = ws, error_v = None\<rparr>
             | Inr _ \<Rightarrow> \<lparr>words_v = [], error_v = None\<rparr>)))"

text \<open>
  \<open>extractVocabulary\<close>, given the prompt that the template builds from the lyrics, the
  title and the blacklist.
\<close>

definition extractVocabulary ::
  "(jstring \<Rightarrow> thrown + json) \<Rightarrow> remote \<Rightarrow> jstring \<Rightarrow> UserSettings option \<Rightarrow>
     VocabularyResult \<times> request list" where
  "extractVocabulary JSON_parse R prompt settings =
    (case callAI R prompt settings
            \<lparr>temperature = Some 1, maxTokens = Some 16384, systemPrompt = None\<rparr> of
       (Inl e, reqs) \<Rightarrow> (\<lparr>words_v = [], error_v = Some (api_failed_prefix @ errorMessage e)\<rparr>, reqs)
     | (Inr resp, reqs) \<Rightarrow> (interpretVocabulary JSON_parse resp, reqs))"

text \<open>The objects \<open>evaluateAnswer\<close> returns when it does not return the parsed value.\<close>

definition evaluation_object :: "jstring \<Rightarrow> jstring option \<Rightarrow> json" where
  "evaluation_object fb err =
     JObject ([(js ''isCorrect'', JBool False), (js ''score'', JNumber 0),
               (js ''feedback'', JString fb)] @
              (case err of None \<Rightarrow> [] | Some e \<Rightarrow> [(js ''error'', JString e)]))"

text \<open>The prefix of the feedback of its \<open>catch\<close> (four Chinese characters, colon, space).\<close>

definition evaluation_failed_prefix :: jstring where
  "evaluation_failed_prefix = [0x8BC4, 0x4F30, 0x51FA, 0x9519] @ js '': ''"

text \<open>\<open>evaluateAnswer\<close> from the point where \<open>callAI\<close> has answered.\<close>

definition interpretEvaluation :: "(jstring \<Rightarrow> thrown + json) \<Rightarrow> AIResponse \<Rightarrow> json" where
  "interpretEvaluation JSON_parse resp =
    (if \<not> falsy (error_r resp) then evaluation_object (orElse (error_r resp) []) None
     else
       (case rx_search object_rx (text_r resp) of
          None \<Rightarrow> evaluation_object cannot_evaluate None
        | Some jsonMatch \<Rightarrow>
            (case JSON_parse (fst jsonMatch) of
               Inl e \<Rightarrow> evaluation_object (evaluation_failed_prefix @ errorMessage e)
                          (Some (api_failed_prefix @ errorMessage e))
             | Inr v \<Rightarrow> v)))"

section \<open>The extraction loop (handleProcess, src/src/screens/FactoryScreen.tsx)\<close>

text \<open>
  An item of \<open>result.words\<close>, with the declared fields (the prefix \<open>v_\<close> keeps them
  apart from the fields of \<open>Word\<close>).
\<close>

record VocabItem =
  v_word :: jstring
  v_meaning :: jstring
  v_level :: jstring
  v_example :: jstring
  v_exampleZh :: jstring
  v_sentence :: jstring
  v_sentenceEn :: jstring
  v_replaceWord :: jstring

definition maxRequests :: nat where
  "maxRequests = 3"

text \<open>
  The body of \<open>for (const w of result.words)\<close>. \<open>toLowerCase\<close> is the built-in of the
  language, taken as the parameter \<open>lc\<close>.
\<close>

definition push_new :: "(jstring \<Rightarrow> jstring) \<Rightarrow> VocabItem list \<Rightarrow> VocabItem \<Rightarrow> VocabItem list" where
  "push_new lc allWords w =
     (if \<not> list_ex (\<lambda>existing. lc (v_word existing) = lc (v_word w)) allWords
      then allWords @ [w] else allWords)"

text \<open>
  The \<open>while\<close> loop. \<open>extract n\<close> is \<open>result.words\<close> of the \<open>n\<close>-th awaited call of
  \<open>extractVocabulary\<close> (which catches every exception). The loop returns \<open>allWords\<close> and
  \<open>requestCount\<close>, the number of calls made.
\<close>

function extraction_loop ::
  "(jstring \<Rightarrow> jstring) \<Rightarrow> (nat \<Rightarrow> VocabItem list) \<Rightarrow> nat \<Rightarrow> VocabItem list \<Rightarrow> VocabItem list \<times> nat" where
  "extraction_loop lc extract requestCount allWords =
     (if requestCount < maxRequests then
        (let requestCount' = requestCount + 1;
             result_words = extract requestCount'
         in if length result_words = 0 then (allWords, requestCount')
            else
              (let allWords' = foldl (push_new lc) allWords result_words
               in if length result_words < 10 then (allWords', requestCount')
                  else if length allWords' \<ge> 25 then (allWords', requestCount')
                  else extraction_loop lc extract requestCount' allWords'))
      else (allWords, requestCount))"
  by pat_completeness auto
termination
  by (relation "measure (\<lambda>(lc, extract, requestCount, allWords). maxRequests - requestCount)") auto

declare extraction_loop.simps [simp del]

text \<open>The merged list after the first \<open>k\<close> calls, for stating when the loop stops.\<close>

fun merged :: "(jstring \<Rightarrow> jstring) \<Rightarrow> (nat \<Rightarrow> VocabItem list) \<Rightarrow> nat \<Rightarrow> VocabItem list" where
  "merged lc extract 0 = []"
| "merged lc extract (Suc k) = foldl (push_new lc) (merged lc extract k) (extract (Suc k))"

section \<open>Deleting a song (handleDeleteSong, src/src/screens/HistoryScreen.tsx)\<close>

text \<open>
  The entities of types/index.ts. Field names shared by several interfaces carry the
  prefix of their record. Timestamps (\<open>Date.now()\<close>) are integers.
\<close>

record Word =
  w_id :: jstring
  w_word :: jstring
  w_meaning :: jstring
  w_example :: jstring
  w_exampleZh :: jstring
  w_level :: jstring
  isMastered :: bool
  w_createdAt :: int

record Source =
  s_id :: jstring
  wordId :: jstring
  songTitle :: jstring
  s_artist :: jstring
  lyricSentence :: jstring
  lyricSentenceEn :: jstring
  lyricTranslated :: jstring
  s_replaceWord :: jstring

datatype language = En | Zh

datatype status = Pending | Processing | Completed

record Song =
  song_id :: jstring
  title :: jstring
  artist :: jstring
  language :: language
  lyrics :: jstring
  status :: status
  createdAt :: int

record Library =
  songs :: "Song list"
  sources :: "Source list"
  words :: "Word list"

text \<open>
  The \<open>onPress\<close> of the Delete button: the three updated collections, which are saved
  and set as the new state. A \<open>Set\<close> is a list without duplicates; only membership in
  it is used.
\<close>

definition handleDeleteSong :: "Song \<Rightarrow> Library \<Rightarrow> Library" where
  "handleDeleteSong song st =
    (let songSources = filter (\<lambda>s. songTitle s = title song) (sources st);
         songWordIds = remdups (map wordId songSources);
         remainingSources = filter (\<lambda>s. songTitle s \<noteq> title song) (sources st);
         otherWordIds = remdups (map wordId remainingSources);
         wordsToDelete = filter (\<lambda>i. \<not> List.member otherWordIds i) songWordIds;
         updatedSongs = filter (\<lambda>s. song_id s \<noteq> song_id song) (songs st);
         updatedSources = filter (\<lambda>s. songTitle s \<noteq> title song) (sources st);
         updatedWords = filter (\<lambda>w. \<not> List.member wordsToDelete (w_id w)) (words st)
     in \<lparr>songs = updatedSongs, sources = updatedSources, words = updatedWords\<rparr>)"

section \<open>Submitting a practice answer (submitPracticeAnswer of the Treasury screen, second part of src/src/services/aiClient.ts)\<close>

datatype practiceMode = FourChoice | Fill | Translate

record PracticeSentence =
  ps_sentence :: jstring
  ps_sentenceZh :: jstring
  ps_options :: "jstring list"

record TranslateQuestion =
  tq_word :: jstring
  tq_sentenceZh :: jstring

text \<open>The result of an evaluation as the screen reads it: \<open>{isCorrect, score, feedback}\<close>.\<close>

record PracticeResult =
  r_isCorrect :: bool
  r_score :: rat
  r_feedback :: jstring

record WrongAnswer =
  wa_id :: jstring
  wa_wordId :: jstring
  wa_word :: jstring
  wa_meaning :: jstring
  wa_userAnswer :: jstring
  wa_correctAnswer :: jstring
  wa_sentence :: jstring
  wa_sentenceEn :: jstring
  wa_score :: rat
  wa_feedback :: jstring
  wa_songTitle :: jstring
  wa_createdAt :: int
  errorType :: practiceMode

text \<open>
  The state the function reads and writes: the state variables of the screen and the
  \<open>wrongAnswers\<close> of the store, to which \<open>addWrongAnswer\<close> appends.
\<close>

record Practice =
  practiceMode :: practiceMode
  practiceWords :: "Word list"
  practiceIndex :: nat
  practiceSentence :: "PracticeSentence option"
  translateQuestion :: "TranslateQuestion option"
  userAnswer :: jstring
  isEvaluating :: bool
  practiceResult :: "PracticeResult option"
  practiceScore :: nat
  wrongAnswers :: "WrongAnswer list"

text \<open>\<open>practiceWords[practiceIndex]\<close>, which is undefined out of range.\<close>

definition currentWord :: "Practice \<Rightarrow> Word option" where
  "currentWord st =
     (if practiceIndex st < length (practiceWords st)
      then Some (practiceWords st ! practiceIndex st) else None)"

text \<open>The TypeError of reading a property of undefined.\<close>

definition type_error :: thrown where
  "type_error = Thrown (Some (js ''Cannot read property of undefined'')) (Some (js ''TypeError''))"

text \<open>
  The \<open>try\<close> block. \<open>evaluated\<close> is what the awaited evaluator call
  (\<open>evaluateTranslation\<close> or \<open>evaluateAnswer\<close>) returns or throws; \<open>newId\<close> and \<open>now\<close>
  are \<open>Date.now().toString() + Math.random()\<close> and \<open>Date.now()\<close>. The block returns the
  state reached and the exception, if one is thrown.
\<close>

definition submit_try ::
  "(jstring \<Rightarrow> jstring) \<Rightarrow> thrown + PracticeResult \<Rightarrow> jstring \<Rightarrow> int \<Rightarrow> Practice \<Rightarrow>
     thrown option \<times> Practice" where
  "submit_try lc evaluated newId now st =
    (let answer = trim (userAnswer st) in
     if practiceMode st = Translate \<and> translateQuestion st \<noteq> None then
       (case evaluated of
          Inl e \<Rightarrow> (Some e, st)
        | Inr result \<Rightarrow>
            (let st' = st\<lparr>practiceResult := Some result\<rparr> in
             if r_isCorrect result \<or> r_score result \<ge> 70 then
               (None, st'\<lparr>practiceScore := practiceScore st + 1\<rparr>)
             else
               (case (currentWord st, translateQuestion st) of
                  (Some w, Some q) \<Rightarrow>
                    (None, st'\<lparr>wrongAnswers := wrongAnswers st' @
                       [\<lparr>wa_id = newId, wa_wordId = w_id w, wa_word = w_word w,
                         wa_meaning = w_meaning w, wa_userAnswer = answer,
                         wa_correctAnswer = tq_word q, wa_sentence = tq_sentenceZh q,
                         wa_sentenceEn = [], wa_score = r_score result,
                         wa_feedback = r_feedback result, wa_songTitle = [],
                         wa_createdAt = now, errorType = Translate\<rparr>]\<rparr>)
                | _ \<Rightarrow> (Some type_error, st'))))
     else if practiceMode st = Fill then
       (case (currentWord st, practiceSentence st) of
          (Some w, Some ps) \<Rightarrow>
            (case evaluated of
               Inl e \<Rightarrow> (Some e, st)
             | Inr result \<Rightarrow>
                 (let st' = st\<lparr>practiceResult := Some result\<rparr> in
                  if r_isCorrect result \<or> r_score result \<ge> 70 then
                    (None, st'\<lparr>practiceScore := practiceScore st + 1\<rparr>)
                  else
                    (None, st'\<lparr>wrongAnswers := wrongAnswers st' @
                       [\<lparr>wa_id = newId, wa_wordId = w_id w, wa_word = w_word w,
                         wa_meaning = w_meaning w, wa_userAnswer = answer,
                         wa_correctAnswer = w_word w, wa_sentence = ps_sentence ps,
                         wa_sentenceEn = ps_sentenceZh ps, wa_score = r_score result,
                         wa_feedback = r_feedback result, wa_songTitle = [],
                         wa_createdAt = now, errorType = Fill\<rparr>]\<rparr>)))
        | _ \<Rightarrow> (Some type_error, st))
     else
       (case currentWord st of
          None \<Rightarrow> (Some type_error, st)
        | Some w \<Rightarrow>
            (let correct = (lc answer = lc (w_word w));
                 result = \<lparr>r_isCorrect = correct, r_score = (if correct then 100 else 0),
                           r_feedback = (if correct then js ''Correct!''
                                         else js ''The answer is \"'' @ w_word w @ js ''\"'')\<rparr>;
                 st' = st\<lparr>practiceResult := Some result\<rparr>
             in if correct then (None, st'\<lparr>practiceScore := practiceScore st + 1\<rparr>)
                else
                  (None, st'\<lparr>wrongAnswers := wrongAnswers st' @
                     [\<lparr>wa_id = newId, wa_wordId = w_id w, wa_word = w_word w,
                       wa_meaning = w_meaning w, wa_userAnswer = answer,
                       wa_correctAnswer = w_word w,
                       wa_sentence = orElse (map_option ps_sentence (practiceSentence st)) [],
                       wa_sentenceEn = orElse (map_option ps_sentenceZh (practiceSentence st)) [],
                       wa_score = 0, wa_feedback = js ''Wrong answer'', wa_songTitle = [],
                       wa_createdAt = now, errorType = FourChoice\<rparr>]\<rparr>))))"

text \<open>
  The whole function: the guard, the \<open>try\<close> block, its \<open>catch\<close> (which reads
  \<open>currentWord.word\<close> again and so throws when the word is undefined) and the
  \<open>finally\<close>. It returns the new state and the exception the call ends with, if any.
\<close>

definition submitPracticeAnswer ::
  "(jstring \<Rightarrow> jstring) \<Rightarrow> thrown + PracticeResult \<Rightarrow> jstring \<Rightarrow> int \<Rightarrow> Practice \<Rightarrow>
     Practice \<times> thrown option" where
  "submitPracticeAnswer lc evaluated newId now st =
    (if (practiceSentence st = None \<and> practiceMode st \<noteq> Translate) \<or> trim (userAnswer st) = []
     then (st, None)
     else
       (case submit_try lc evaluated newId now (st\<lparr>isEvaluating := True\<rparr>) of
          (None, st') \<Rightarrow> (st'\<lparr>isEvaluating := False\<rparr>, None)
        | (Some e, st') \<Rightarrow>
            (case currentWord st of
               None \<Rightarrow> (st'\<lparr>isEvaluating := False\<rparr>, Some type_error)
             | Some w \<Rightarrow>
                 (let correct = (lc (trim (userAnswer st)) = lc (w_word w));
                      st'' = st'\<lparr>practiceResult :=
                               Some \<lparr>r_isCorrect = correct, r_score = (if correct then 100 else 0),
                                     r_feedback = (if correct then js ''Correct!'' else js ''Wrong'')\<rparr>\<rparr>
                  in ((if correct then st''\<lparr>practiceScore := practiceScore st + 1\<rparr> else st'')
                        \<lparr>isEvaluating := False\<rparr>, None)))))"

section \<open>Persistent storage (StorageService, second part of src/App.tsx)\<close>

text \<open>
  AsyncStorage: the stored items, and whether a \<open>setItem\<close> or a \<open>getItem\<close> resolves or
  rejects (its promise may reject, which the service catches).
\<close>

record AsyncStorage =
  items :: "jstring \<rightharpoonup> jstring"
  setItem_resolves :: "jstring \<Rightarrow> jstring \<Rightarrow> bool"
  getItem_resolves :: "jstring \<Rightarrow> bool"

definition storage_error :: thrown where
  "storage_error = Thrown (Some (js ''AsyncStorage error'')) None"

definition setItem :: "AsyncStorage \<Rightarrow> jstring \<Rightarrow> jstring \<Rightarrow> thrown + AsyncStorage" where
  "setItem a k v =
     (if setItem_resolves a k v then Inr (a\<lparr>items := (items a)(k \<mapsto> v)\<rparr>) else Inl storage_error)"

definition getItem :: "AsyncStorage \<Rightarrow> jstring \<Rightarrow> thrown + jstring option" where
  "getItem a k = (if getItem_resolves a k then Inr (items a k) else Inl storage_error)"

definition WORDS_KEY :: jstring where
  "WORDS_KEY = js ''@melody_words''"

definition SOURCES_KEY :: jstring where
  "SOURCES_KEY = js ''@melody_sources''"

definition SONGS_KEY :: jstring where
  "SONGS_KEY = js ''@melody_songs''"

text \<open>
  The getters and setters differ in the key only. The collections are JavaScript values
  (\<open>json\<close>); \<open>JSON.stringify\<close> and \<open>JSON.parse\<close> are the parameters \<open>JSON_stringify\<close> and
  \<open>JSON_parse\<close>. A getter returns \<open>[]\<close> for a missing or empty item and when anything
  throws; a setter catches what \<open>setItem\<close> throws.
\<close>

definition get_collection :: "jstring \<Rightarrow> (jstring \<Rightarrow> thrown + json) \<Rightarrow> AsyncStorage \<Rightarrow> json" where
  "get_collection key JSON_parse a =
     (case getItem a key of
        Inl e \<Rightarrow> JArray []
      | Inr data \<Rightarrow>
          if falsy data then JArray []
          else (case JSON_parse (orElse data []) of Inl e \<Rightarrow> JArray [] | Inr v \<Rightarrow> v))"

definition save_collection :: "jstring \<Rightarrow> (json \<Rightarrow> jstring) \<Rightarrow> AsyncStorage \<Rightarrow> json \<Rightarrow> AsyncStorage" where
  "save_collection key JSON_stringify a v =
     (case setItem a key (JSON_stringify v) of Inl e \<Rightarrow> a | Inr a' \<Rightarrow> a')"

definition getWords :: "(jstring \<Rightarrow> thrown + json) \<Rightarrow> AsyncStorage \<Rightarrow> json" where
  "getWords = get_collection WORDS_KEY"

definition saveWords :: "(json \<Rightarrow> jstring) \<Rightarrow> AsyncStorage \<Rightarrow> json \<Rightarrow> AsyncStorage" where
  "saveWords = save_collection WORDS_KEY"

definition getSources :: "(jstring \<Rightarrow> thrown + json) \<Rightarrow> AsyncStorage \<Rightarrow> json" where
  "getSources = get_collection SOURCES_KEY"

definition saveSources :: "(json \<Rightarrow> jstring) \<Rightarrow> AsyncStorage \<Rightarrow> json \<Rightarrow> AsyncStorage" where
  "saveSources = save_collection SOURCES_KEY"

definition getSongs :: "(jstring \<Rightarrow> thrown + json) \<Rightarrow> AsyncStorage \<Rightarrow> json" where
  "getSongs = get_collection SONGS_KEY"

definition saveSongs :: "(json \<Rightarrow> jstring) \<Rightarrow> AsyncStorage \<Rightarrow> json \<Rightarrow> AsyncStorage" where
  "saveSongs = save_collection SONGS_KEY"

section \<open>Concrete inputs\<close>

text \<open>The default settings of types/index.ts with a chosen provider: every key is empty.\<close>

definition settings_of :: "jstring \<Rightarrow> UserSettings" where
  "settings_of p =
     \<lparr>apiProvider = p, nvidiaApiKey = [], geminiApiKey = [], opencodeApiKey = [],
      nvidiaModel = js ''moonshotai/kimi-k2.5'', geminiModel = js ''gemini-2.5-flash-lite'',
      opencodeModel = js ''big-pickle'', aiStyle = js ''lyric''\<rparr>"

definition no_options :: AIOptions where
  "no_options = \<lparr>temperature = None, maxTokens = None, systemPrompt = None\<rparr>"

text \<open>A remote side that rejects every request.\<close>

definition rejecting_remote :: remote where
  "rejecting_remote =
     \<lparr>generateContent = (\<lambda>_. Inl (Thrown (Some (js ''API key not valid'')) None)),
      chatCreate = (\<lambda>_. Inl (Thrown (Some (js ''Network request failed'')) None))\<rparr>"

text \<open>
  The values of \<open>JSON.stringify\<close> and \<open>JSON.parse\<close> at the texts and values of the
  examples below; any other text is not JSON and makes \<open>JSON.parse\<close> throw.
\<close>

definition one_word :: json where
  "one_word = JArray [JObject
     [(js ''id'', JString (js ''1'')), (js ''word'', JString (js ''vivid'')),
      (js ''meaning'', JString (js ''m'')), (js ''example'', JString (js ''e'')),
      (js ''exampleZh'', JString (js ''z'')), (js ''level'', JString (js ''B2'')),
      (js ''isMastered'', JBool False), (js ''createdAt'', JNumber 1)]]"

definition one_word_inner :: jstring where
  "one_word_inner = js (''{\"id\":\"1\",\"word\":\"vivid\",\"meaning\":\"m\",\"example\":\"e\",'' @
     ''\"exampleZh\":\"z\",\"level\":\"B2\",\"isMastered\":false,\"createdAt\":1}'')"

definition one_word_text :: jstring where
  "one_word_text = [0x5B] @ one_word_inner @ [0x5D]"

definition verdict :: json where
  "verdict = JObject [(js ''isCorrect'', JBool True), (js ''score'', JNumber 85),
     (js ''feedback'', JString (js ''ok''))]"

definition verdict_inner :: jstring where
  "verdict_inner = js ''\"isCorrect\":true,\"score\":85,\"feedback\":\"ok\"''"

definition verdict_text :: jstring where
  "verdict_text = [0x7B] @ verdict_inner @ [0x7D]"

definition syntax_error :: thrown where
  "syntax_error = Thrown (Some (js ''JSON Parse error'')) (Some (js ''SyntaxError: JSON Parse error''))"

definition parse_table :: "jstring \<Rightarrow> thrown + json" where
  "parse_table s =
     (if s = one_word_text then Inr one_word
      else if s = verdict_text then Inr verdict
      else if s = js ''[]'' then Inr (JArray [])
      else Inl syntax_error)"

definition stringify_table :: "json \<Rightarrow> jstring" where
  "stringify_table v = (if v = one_word then one_word_text else js ''[]'')"

text \<open>\<open>toLowerCase\<close> on strings of ASCII characters.\<close>

definition ascii_lower :: "jstring \<Rightarrow> jstring" where
  "ascii_lower s = map (\<lambda>c. if 0x41 \<le> c \<and> c \<le> 0x5A then c + 0x20 else c) s"

definition item_of :: "jstring \<Rightarrow> VocabItem" where
  "item_of w =
     \<lparr>v_word = w, v_meaning = js ''m'', v_level = js ''B2'', v_example = js ''e'',
      v_exampleZh = js ''z'', v_sentence = js ''s'', v_sentenceEn = js ''t'',
      v_replaceWord = js ''r''\<rparr>"

text \<open>A first call that returns ten different words, and later calls that return one.\<close>

definition ten_then_one :: "nat \<Rightarrow> VocabItem list" where
  "ten_then_one n =
     (if n = 1 then
        map item_of [js ''a'', js ''b'', js ''c'', js ''d'', js ''e'', js ''f'', js ''g'', js ''h'',
                     js ''i'', js ''j'']
      else [item_of (js ''k'')])"

definition word_of :: "jstring \<Rightarrow> jstring \<Rightarrow> Word" where
  "word_of i w =
     \<lparr>w_id = i, w_word = w, w_meaning = js ''m'', w_example = js ''e'', w_exampleZh = js ''z'',
      w_level = js ''B2'', isMastered = False, w_createdAt = 1\<rparr>"

definition source_of :: "jstring \<Rightarrow> jstring \<Rightarrow> jstring \<Rightarrow> Source" where
  "source_of i wid t =
     \<lparr>s_id = i, wordId = wid, songTitle = t, s_artist = [], lyricSentence = js ''s'',
      lyricSentenceEn = js ''t'', lyricTranslated = js ''m'', s_replaceWord = js ''r''\<rparr>"

definition song_of :: "jstring \<Rightarrow> jstring \<Rightarrow> Song" where
  "song_of i t =
     \<lparr>song_id = i, title = t, artist = [], language = En, lyrics = js ''la'',
      status = Completed, createdAt = 1\<rparr>"

text \<open>
  A library of two songs: word 1 occurs in song A only, word 2 in both songs, word 3 in
  no song.
\<close>

definition library0 :: Library where
  "library0 =
     \<lparr>songs = [song_of (js ''10'') (js ''A''), song_of (js ''20'') (js ''B'')],
      sources = [source_of (js ''s1'') (js ''1'') (js ''A''),
                 source_of (js ''s2'') (js ''2'') (js ''A''),
                 source_of (js ''s3'') (js ''2'') (js ''B'')],
      words = [word_of (js ''1'') (js ''vivid''), word_of (js ''2'') (js ''serene''),
               word_of (js ''3'') (js ''linger'')]\<rparr>"

text \<open>A fill-in-blank question on the first of four words, answered \<open>" vivd "\<close>.\<close>

definition practice0 :: Practice where
  "practice0 =
     \<lparr>practiceMode = Fill,
      practiceWords = [word_of (js ''1'') (js ''vivid''), word_of (js ''2'') (js ''serene''),
                       word_of (js ''3'') (js ''linger''), word_of (js ''4'') (js ''gleam'')],
      practiceIndex = 0,
      practiceSentence = Some \<lparr>ps_sentence = js ''A ____ dream'', ps_sentenceZh = js ''zh'',
                                ps_options = []\<rparr>,
      translateQuestion = None,
      userAnswer = js '' vivd '',
      isEvaluating = False,
      practiceResult = None,
      practiceScore = 2,
      wrongAnswers = []\<rparr>"

text \<open>An empty storage that works, and one whose writes are rejected.\<close>

definition working_storage :: AsyncStorage where
  "working_storage =
     \<lparr>items = Map.empty, setItem_resolves = (\<lambda>k v. True), getItem_resolves = (\<lambda>k. True)\<rparr>"

definition rejecting_storage :: AsyncStorage where
  "rejecting_storage =
     \<lparr>items = Map.empty, setItem_resolves = (\<lambda>k v. False), getItem_resolves = (\<lambda>k. True)\<rparr>"

text \<open>The evaluator's text of the scenario: score line, correct line, reason line.\<close>

definition scenario_text :: jstring where
  "scenario_text = js ''Score: 72/100'' @ [0x0A] @ js ''Correct: \"the answer\"'' @ [0x0A] @
     js ''Reason: '' @ [0x8BED, 0x6CD5, 0x6B63, 0x786E]"

section \<open>Properties of the completion gateway\<close>

text \<open>
  Claim C1, as amended. With the provider \<open>nvidia\<close> or \<open>opencode\<close> and an empty key for
  it, \<open>callAI\<close> returns the provider's "key is missing" error and issues no request. With
  the provider \<open>gemini\<close> there is no such check: exactly one request is issued, with the
  empty key.
\<close>

theorem callAI_missing_key:
  "(apiProvider s = js ''nvidia'' \<and> nvidiaApiKey s = [] \<longrightarrow>
      callAI R prompt (Some s) options =
        (Inr \<lparr>text_r = [], error_r = Some (js ''NVIDIA API key is missing'')\<rparr>, [])) \<and>
   (apiProvider s = js ''opencode'' \<and> opencodeApiKey s = [] \<longrightarrow>
      callAI R prompt (Some s) options =
        (Inr \<lparr>text_r = [], error_r = Some (js ''OpenCode API key is missing'')\<rparr>, [])) \<and>
   (apiProvider s = js ''gemini'' \<and> geminiApiKey s = [] \<longrightarrow>
      snd (callAI R prompt (Some s) options) =
        [GenerateContent [] (orElse (Some (geminiModel s)) (js ''gemini-2.5-flash-lite'')) prompt])"
  by (auto simp: callAI_def callAI_try_def js_def Let_def split: sum.splits)

text \<open>The three cases on the default settings, whose keys are all empty.\<close>

theorem callAI_missing_key_witness:
  "callAI rejecting_remote (js ''hi'') (Some (settings_of (js ''nvidia''))) no_options =
     (Inr \<lparr>text_r = [], error_r = Some (js ''NVIDIA API key is missing'')\<rparr>, []) \<and>
   callAI rejecting_remote (js ''hi'') (Some (settings_of (js ''opencode''))) no_options =
     (Inr \<lparr>text_r = [], error_r = Some (js ''OpenCode API key is missing'')\<rparr>, []) \<and>
   snd (callAI rejecting_remote (js ''hi'') (Some (settings_of (js ''gemini''))) no_options) =
     [GenerateContent [] (js ''gemini-2.5-flash-lite'') (js ''hi'')]"
  using callAI_missing_key [of "settings_of (js ''nvidia'')" rejecting_remote "js ''hi''" no_options]
    callAI_missing_key [of "settings_of (js ''opencode'')" rejecting_remote "js ''hi''" no_options]
    callAI_missing_key [of "settings_of (js ''gemini'')" rejecting_remote "js ''hi''" no_options]
  by (simp add: settings_of_def js_def)

text \<open>
  Claim C1 as stated fails for \<open>gemini\<close>: with the empty key of the default settings a
  request is issued.
\<close>

theorem callAI_gemini_empty_key_counterexample:
  "geminiApiKey (settings_of (js ''gemini'')) = [] \<and>
   snd (callAI rejecting_remote (js ''hi'') (Some (settings_of (js ''gemini''))) no_options) =
     [GenerateContent [] (js ''gemini-2.5-flash-lite'') (js ''hi'')]"
  by (simp add: callAI_def callAI_try_def rejecting_remote_def settings_of_def no_options_def js_def)

text \<open>
  Claim C8. \<open>callAI\<close> always returns a result, never an exception; an exception thrown
  inside the \<open>try\<close> block becomes the result with the empty text and the error message
  made from it.
\<close>

theorem callAI_never_throws:
  "(\<exists>r. fst (callAI R prompt settings options) = Inr r) \<and>
   (\<forall>e reqs. callAI_try R prompt settings options = (Inl e, reqs) \<longrightarrow>
      callAI R prompt settings options =
        (Inr \<lparr>text_r = [], error_r = Some (api_failed_prefix @ errorMessage e)\<rparr>, reqs))"
  by (auto simp: callAI_def split: prod.splits sum.splits)

text \<open>Without settings the Gemini request is issued; its rejection is returned as the error.\<close>

theorem callAI_never_throws_witness:
  "callAI rejecting_remote (js ''hi'') None no_options =
     (Inr \<lparr>text_r = [],
           error_r = Some (api_failed_prefix @ js ''API key not valid'')\<rparr>,
      [GenerateContent [] (js ''gemini-2.5-flash-lite'') (js ''hi'')])"
  using callAI_never_throws [of rejecting_remote "js ''hi''" None no_options]
  by (simp add: callAI_try_def rejecting_remote_def no_options_def errorMessage_def js_def)

text \<open>
  Claim C10, as amended. With a provider that is a non-empty string other than
  \<open>gemini\<close>, \<open>nvidia\<close> and \<open>opencode\<close>, \<open>callAI\<close> returns the error
  \<open>Unknown API provider\<close> and issues no request.
\<close>

theorem callAI_unknown_provider:
  assumes "apiProvider s \<noteq> []" and "apiProvider s \<noteq> js ''gemini''"
    and "apiProvider s \<noteq> js ''nvidia''" and "apiProvider s \<noteq> js ''opencode''"
  shows "callAI R prompt (Some s) options =
           (Inr \<lparr>text_r = [], error_r = Some (js ''Unknown API provider'')\<rparr>, [])"
  using assms by (simp add: callAI_def callAI_try_def)

text \<open>The provider \<open>openai\<close> is not one of the three.\<close>

theorem callAI_unknown_provider_witness:
  "callAI rejecting_remote (js ''hi'') (Some (settings_of (js ''openai''))) no_options =
     (Inr \<lparr>text_r = [], error_r = Some (js ''Unknown API provider'')\<rparr>, [])"
  by (rule callAI_unknown_provider) (simp_all add: settings_of_def js_def)

text \<open>
  Claim C10 as stated fails for the empty string, which is falsy and so selects the
  Gemini branch: a request is issued and the error is that of the rejected request.
\<close>

theorem callAI_empty_provider_counterexample:
  "apiProvider (settings_of []) \<noteq> js ''gemini'' \<and>
   apiProvider (settings_of []) \<noteq> js ''nvidia'' \<and>
   apiProvider (settings_of []) \<noteq> js ''opencode'' \<and>
   callAI rejecting_remote (js ''hi'') (Some (settings_of [])) no_options =
     (Inr \<lparr>text_r = [], error_r = Some (api_failed_prefix @ js ''API key not valid'')\<rparr>,
      [GenerateContent [] (js ''gemini-2.5-flash-lite'') (js ''hi'')])"
  by (simp add: callAI_def callAI_try_def rejecting_remote_def settings_of_def no_options_def
      errorMessage_def js_def)

section \<open>Properties of the JSON interpreters\<close>

lemma any_unit_True: "any_unit c"
  by (simp add: any_unit_def)

lemma greedy_sound:
  "greedy c k s = Some (t, res) \<Longrightarrow> \<exists>u. s = t @ u \<and> k u = Some res"
proof (induction s arbitrary: t res)
  case Nil
  then show ?case by auto
next
  case (Cons x xs)
  show ?case
  proof (cases "c x")
    case False
    with Cons.prems show ?thesis by auto
  next
    case True
    show ?thesis
    proof (cases "greedy c k xs")
      case None
      with True Cons.prems show ?thesis by auto
    next
      case (Some p)
      obtain t' r' where p: "p = (t', r')" by (cases p)
      with Some True Cons.prems have "t = x # t'" "res = r'" by auto
      moreover from Cons.IH Some p obtain u where "xs = t' @ u" "k u = Some r'" by blast
      ultimately show ?thesis by auto
    qed
  qed
qed

lemma greedy_none:
  "(\<And>a u. s = a @ u \<Longrightarrow> k u = None) \<Longrightarrow> greedy c k s = None"
proof (induction s)
  case Nil
  then show ?case by simp
next
  case (Cons x xs)
  have "greedy c k xs = None"
  proof (rule Cons.IH)
    fix a u assume "xs = a @ u"
    then have "x # xs = (x # a) @ u" by simp
    then show "k u = None" by (rule Cons.prems)
  qed
  moreover have "k (x # xs) = None" by (rule Cons.prems [of "[]"]) simp
  ultimately show ?case by simp
qed

lemma closes_none:
  "r \<notin> set u \<Longrightarrow> rx_match [Atom (\<lambda>x. x = r) Once False] u = None"
  by (cases u) auto

lemma closes_Cons:
  "rx_match [Atom (\<lambda>x. x = r) Once False] (x # xs) = (if x = r then Some ([r], []) else None)"
  by (simp add: captured_def)

lemma greedy_last:
  "r \<notin> set post \<Longrightarrow>
   greedy any_unit (rx_match [Atom (\<lambda>x. x = r) Once False]) (mid @ r # post) = Some (mid, ([r], []))"
proof (induction mid)
  case Nil
  have "greedy any_unit (rx_match [Atom (\<lambda>x. x = r) Once False]) post = None"
  proof (rule greedy_none)
    fix a u assume "post = a @ u"
    with Nil have "r \<notin> set u" by simp
    then show "rx_match [Atom (\<lambda>x. x = r) Once False] u = None" by (rule closes_none)
  qed
  then show ?case using any_unit_True [of r] by (simp add: closes_Cons del: rx_match.simps)
next
  case (Cons x mid)
  then show ?case using any_unit_True [of x] by (simp del: rx_match.simps)
qed

lemma span_match_at:
  "r \<notin> set post \<Longrightarrow> rx_match (span_rx l r) (l # mid @ r # post) = Some (l # mid @ [r], [])"
  by (simp add: span_rx_def captured_def greedy_last)

lemma span_match_skip:
  "x \<noteq> l \<Longrightarrow> rx_match (span_rx l r) (x # xs) = None"
  by (simp add: span_rx_def)

lemma span_match_nil: "rx_match (span_rx l r) [] = None"
  by (simp add: span_rx_def)

lemma span_search:
  "l \<notin> set pre \<Longrightarrow> r \<notin> set post \<Longrightarrow>
   rx_search (span_rx l r) (pre @ l # mid @ r # post) = Some (l # mid @ [r], [])"
  by (induction pre) (auto simp: span_match_at span_match_skip)

lemma span_match_sound:
  assumes "rx_match (span_rx l r) s = Some m"
  shows "\<exists>b c. s = l # b @ r # c"
proof (cases s)
  case Nil
  with assms show ?thesis by (simp add: span_match_nil)
next
  case (Cons x xs)
  with assms have xl: "x = l" by (auto simp: span_rx_def split: if_splits)
  from assms Cons xl obtain t res
    where g: "greedy any_unit (rx_match [Atom (\<lambda>x. x = r) Once False]) xs = Some (t, res)"
    by (auto simp: span_rx_def split: if_splits)
  from greedy_sound [OF g]
  obtain u where u: "xs = t @ u" "rx_match [Atom (\<lambda>x. x = r) Once False] u = Some res"
    by auto
  from u(2) obtain c where "u = r # c" by (cases u) (auto split: if_splits)
  with u(1) Cons xl have "s = l # t @ r # c" by simp
  then show ?thesis by (intro exI)
qed

lemma span_search_sound:
  "rx_search (span_rx l r) s = Some m \<Longrightarrow> \<exists>a b c. s = a @ l # b @ r # c"
proof (induction s)
  case Nil
  then show ?case by (simp add: span_match_nil)
next
  case (Cons x xs)
  show ?case
  proof (cases "rx_match (span_rx l r) (x # xs)")
    case None
    with Cons.prems have "rx_search (span_rx l r) xs = Some m" by simp
    from Cons.IH [OF this] obtain a b c where "xs = a @ l # b @ r # c" by auto
    then have "x # xs = (x # a) @ l # b @ r # c" by simp
    then show ?thesis by (intro exI)
  next
    case (Some m')
    from span_match_sound [OF this] obtain b c where "x # xs = [] @ l # b @ r # c" by auto
    then show ?thesis by (intro exI)
  qed
qed

lemma span_search_none:
  assumes "\<not> (\<exists>a b c. s = a @ l # b @ r # c)"
  shows "rx_search (span_rx l r) s = None"
proof (cases "rx_search (span_rx l r) s")
  case None
  then show ?thesis .
next
  case (Some m)
  from span_search_sound [OF this] assms show ?thesis by simp
qed

text \<open>
  Claim C2, as amended. When the text is prose, then a payload that opens with \<open>[\<close> and
  closes with \<open>]\<close>, then prose, where the prose before holds no \<open>[\<close> and the prose
  after holds no \<open>]\<close>, the slice given to \<open>JSON.parse\<close> is exactly the payload, and a
  payload that parses to an array is returned as the words; likewise for \<open>{\<close> and
  \<open>}\<close> in \<open>evaluateAnswer\<close>, which returns the parsed value. When the text has no
  opening bracket followed later by a closing one, the result is the fallback: no words
  and no error, or the default evaluation object.
\<close>

theorem response_interpreter_span:
  "(0x5B \<notin> set pre \<and> 0x5D \<notin> set post \<and> JSON_parse ([0x5B] @ mid @ [0x5D]) = Inr (JArray ws) \<longrightarrow>
      interpretVocabulary JSON_parse
        \<lparr>text_r = pre @ [0x5B] @ mid @ [0x5D] @ post, error_r = None\<rparr> =
      \<lparr>words_v = ws, error_v = None\<rparr>) \<and>
   (0x7B \<notin> set pre' \<and> 0x7D \<notin> set post' \<and> JSON_parse ([0x7B] @ mid' @ [0x7D]) = Inr v \<longrightarrow>
      interpretEvaluation JSON_parse
        \<lparr>text_r = pre' @ [0x7B] @ mid' @ [0x7D] @ post', error_r = None\<rparr> = v) \<and>
   (\<not> (\<exists>a b c. t = a @ 0x5B # b @ 0x5D # c) \<longrightarrow>
      interpretVocabulary JSON_parse \<lparr>text_r = t, error_r = None\<rparr> =
      \<lparr>words_v = [], error_v = None\<rparr>) \<and>
   (\<not> (\<exists>a b c. t' = a @ 0x7B # b @ 0x7D # c) \<longrightarrow>
      interpretEvaluation JSON_parse \<lparr>text_r = t', error_r = None\<rparr> =
      evaluation_object cannot_evaluate None)"
proof (intro conjI impI)
  assume a: "0x5B \<notin> set pre \<and> 0x5D \<notin> set post \<and>
    JSON_parse ([0x5B] @ mid @ [0x5D]) = Inr (JArray ws)"
  then have "rx_search array_rx (pre @ [0x5B] @ mid @ [0x5D] @ post) = Some ([0x5B] @ mid @ [0x5D], [])"
    using span_search [of "0x5B" pre "0x5D" post mid] by (simp add: array_rx_def)
  with a show "interpretVocabulary JSON_parse
        \<lparr>text_r = pre @ [0x5B] @ mid @ [0x5D] @ post, error_r = None\<rparr> =
      \<lparr>words_v = ws, error_v = None\<rparr>"
    by (simp add: interpretVocabulary_def)
next
  assume a: "0x7B \<notin> set pre' \<and> 0x7D \<notin> set post' \<and> JSON_parse ([0x7B] @ mid' @ [0x7D]) = Inr v"
  then have "rx_search object_rx (pre' @ [0x7B] @ mid' @ [0x7D] @ post') = Some ([0x7B] @ mid' @ [0x7D], [])"
    using span_search [of "0x7B" pre' "0x7D" post' mid'] by (simp add: object_rx_def)
  with a show "interpretEvaluation JSON_parse
        \<lparr>text_r = pre' @ [0x7B] @ mid' @ [0x7D] @ post', error_r = None\<rparr> = v"
    by (simp add: interpretEvaluation_def)
next
  assume "\<not> (\<exists>a b c. t = a @ 0x5B # b @ 0x5D # c)"
  then have "rx_search array_rx t = None"
    unfolding array_rx_def by (rule span_search_none)
  then show "interpretVocabulary JSON_parse \<lparr>text_r = t, error_r = None\<rparr> =
      \<lparr>words_v = [], error_v = None\<rparr>"
    by (simp add: interpretVocabulary_def)
next
  assume "\<not> (\<exists>a b c. t' = a @ 0x7B # b @ 0x7D # c)"
  then have "rx_search object_rx t' = None"
    unfolding object_rx_def by (rule span_search_none)
  then show "interpretEvaluation JSON_parse \<lparr>text_r = t', error_r = None\<rparr> =
      evaluation_object cannot_evaluate None"
    by (simp add: interpretEvaluation_def)
qed


lemma no_span:
  "l \<notin> set t \<Longrightarrow> \<not> (\<exists>a b c. t = a @ l # b @ r # c)"
  by auto

lemmas table_defs = parse_table_def one_word_text_def one_word_inner_def verdict_text_def
  verdict_inner_def one_word_def verdict_def

text \<open>An array and an object between two pieces of prose, and a text without brackets.\<close>

theorem response_interpreter_span_witness:
  "interpretVocabulary parse_table
     \<lparr>text_r = js ''Here are the words: '' @ [0x5B] @ one_word_inner @ [0x5D] @ js '' Done.'',
      error_r = None\<rparr> =
     \<lparr>words_v = [JObject
        [(js ''id'', JString (js ''1'')), (js ''word'', JString (js ''vivid'')),
         (js ''meaning'', JString (js ''m'')), (js ''example'', JString (js ''e'')),
         (js ''exampleZh'', JString (js ''z'')), (js ''level'', JString (js ''B2'')),
         (js ''isMastered'', JBool False), (js ''createdAt'', JNumber 1)]],
      error_v = None\<rparr> \<and>
   interpretEvaluation parse_table
     \<lparr>text_r = js ''Verdict: '' @ [0x7B] @ verdict_inner @ [0x7D] @ js '' (final)'',
      error_r = None\<rparr> = verdict \<and>
   interpretVocabulary parse_table \<lparr>text_r = js ''I cannot help with that.'', error_r = None\<rparr> =
     \<lparr>words_v = [], error_v = None\<rparr> \<and>
   interpretEvaluation parse_table \<lparr>text_r = js ''I cannot help with that.'', error_r = None\<rparr> =
     evaluation_object cannot_evaluate None"
proof -
  have h1: "0x5B \<notin> set (js ''Here are the words: '') \<and> 0x5D \<notin> set (js '' Done.'') \<and>
      parse_table ([0x5B] @ one_word_inner @ [0x5D]) = Inr (JArray [JObject
        [(js ''id'', JString (js ''1'')), (js ''word'', JString (js ''vivid'')),
         (js ''meaning'', JString (js ''m'')), (js ''example'', JString (js ''e'')),
         (js ''exampleZh'', JString (js ''z'')), (js ''level'', JString (js ''B2'')),
         (js ''isMastered'', JBool False), (js ''createdAt'', JNumber 1)]])"
    by (simp add: table_defs js_def)
  have h2: "0x7B \<notin> set (js ''Verdict: '') \<and> 0x7D \<notin> set (js '' (final)'') \<and>
      parse_table ([0x7B] @ verdict_inner @ [0x7D]) = Inr verdict"
    by (simp add: table_defs js_def)
  have h3: "\<not> (\<exists>a b c. js ''I cannot help with that.'' = a @ 0x5B # b @ 0x5D # c)"
    by (rule no_span) (simp add: js_def)
  have h4: "\<not> (\<exists>a b c. js ''I cannot help with that.'' = a @ 0x7B # b @ 0x7D # c)"
    by (rule no_span) (simp add: js_def)
  from h1 h2 h3 h4
    response_interpreter_span [where pre = "js ''Here are the words: ''" and post = "js '' Done.''"
      and JSON_parse = parse_table and mid = one_word_inner and pre' = "js ''Verdict: ''"
      and post' = "js '' (final)''" and mid' = verdict_inner and v = verdict
      and t = "js ''I cannot help with that.''" and t' = "js ''I cannot help with that.''"]
  show ?thesis by blast
qed

text \<open>
  Claim C2 as stated fails when the prose after the payload holds a closing bracket: the
  greedy pattern runs to the last \<open>]\<close> of the text, \<open>JSON.parse\<close> is given the payload
  and the prose up to there, and the result is the error fallback instead of the payload.
\<close>

theorem response_interpreter_counterexample:
  "parse_table one_word_text = Inr one_word \<and>
   rx_search array_rx (js ''Words: '' @ one_word_text @ js '' (end of list]'') =
     Some (one_word_text @ js '' (end of list]'', []) \<and>
   interpretVocabulary parse_table
     \<lparr>text_r = js ''Words: '' @ one_word_text @ js '' (end of list]'', error_r = None\<rparr> =
     \<lparr>words_v = [], error_v = Some (api_failed_prefix @ js ''JSON Parse error'')\<rparr>"
proof -
  have m: "rx_search array_rx (js ''Words: '' @ one_word_text @ js '' (end of list]'') =
     Some (one_word_text @ js '' (end of list]'', [])"
    by (simp add: array_rx_def span_rx_def any_unit_def captured_def one_word_text_def
        one_word_inner_def js_def)
  have p: "parse_table (one_word_text @ js '' (end of list]'') = Inl syntax_error"
    by (simp add: table_defs js_def)
  have q: "parse_table one_word_text = Inr one_word"
    by (simp add: parse_table_def)
  have n: "js ''Words: '' @ one_word_text @ js '' (end of list]'' \<noteq> []"
    by (simp add: js_def)
  show ?thesis
    using m p q n by (simp add: interpretVocabulary_def syntax_error_def errorMessage_def js_def)
qed

section \<open>Properties of the extraction loop\<close>

lemma loop_step:
  "extraction_loop lc extract k acc =
     (if k < 3 then
        (if length (extract (k + 1)) < 10 \<or>
            25 \<le> length (foldl (push_new lc) acc (extract (k + 1)))
         then (foldl (push_new lc) acc (extract (k + 1)), k + 1)
         else extraction_loop lc extract (k + 1) (foldl (push_new lc) acc (extract (k + 1))))
      else (acc, k))"
  by (subst extraction_loop.simps) (auto simp: maxRequests_def Let_def)

lemma merged_1: "merged lc extract 1 = foldl (push_new lc) [] (extract 1)"
  by simp

lemma merged_2: "merged lc extract 2 = foldl (push_new lc) (merged lc extract 1) (extract 2)"
  by (simp add: numeral_2_eq_2)

lemma merged_3: "merged lc extract 3 = foldl (push_new lc) (merged lc extract 2) (extract 3)"
  by (simp add: numeral_3_eq_3 numeral_2_eq_2)

lemma loop_from_2:
  "extraction_loop lc extract 2 acc = (foldl (push_new lc) acc (extract 3), 3)"
proof -
  have "extraction_loop lc extract 3 (foldl (push_new lc) acc (extract 3)) =
          (foldl (push_new lc) acc (extract 3), 3)"
    by (subst loop_step) simp
  then show ?thesis
    by (subst loop_step) simp
qed

lemma loop_from_1:
  "extraction_loop lc extract 1 acc =
     (if length (extract 2) < 10 \<or> 25 \<le> length (foldl (push_new lc) acc (extract 2))
      then (foldl (push_new lc) acc (extract 2), 2)
      else (foldl (push_new lc) (foldl (push_new lc) acc (extract 2)) (extract 3), 3))"
proof -
  have "(1::nat) + 1 = 2" by simp
  then show ?thesis
    by (subst loop_step) (simp add: loop_from_2 del: One_nat_def)
qed

lemma loop_from_0:
  "extraction_loop lc extract 0 [] =
     (if length (extract 1) < 10 \<or> 25 \<le> length (merged lc extract 1)
      then (merged lc extract 1, 1)
      else if length (extract 2) < 10 \<or> 25 \<le> length (merged lc extract 2)
      then (merged lc extract 2, 2)
      else (merged lc extract 3, 3))"
  by (subst loop_step) (simp add: loop_from_1 merged_1 merged_2 merged_3 del: One_nat_def merged.simps)

text \<open>
  Claim C3, as amended. The loop makes at least one and at most three calls and returns
  the merged list of the calls made. It stops after a call exactly when that was the third
  call, or the call returned fewer than 10 items (counted before deduplication), or the
  merged list has reached 25 items; no earlier call met a stopping condition. If the first
  call returns fewer than 10 items, exactly one call is made.
\<close>

theorem extraction_loop_stops:
  "1 \<le> snd (extraction_loop lc extract 0 []) \<and>
   snd (extraction_loop lc extract 0 []) \<le> 3 \<and>
   fst (extraction_loop lc extract 0 []) = merged lc extract (snd (extraction_loop lc extract 0 [])) \<and>
   (snd (extraction_loop lc extract 0 []) = 3 \<or>
    length (extract (snd (extraction_loop lc extract 0 []))) < 10 \<or>
    25 \<le> length (fst (extraction_loop lc extract 0 []))) \<and>
   (\<forall>k. 1 \<le> k \<and> k < snd (extraction_loop lc extract 0 []) \<longrightarrow>
      10 \<le> length (extract k) \<and> length (merged lc extract k) < 25) \<and>
   (length (extract 1) < 10 \<longrightarrow> snd (extraction_loop lc extract 0 []) = 1)"
proof -
  have two: "\<And>k::nat. 1 \<le> k \<Longrightarrow> k < 2 \<Longrightarrow> k = 1" by simp
  have three: "\<And>k::nat. 1 \<le> k \<Longrightarrow> k < 3 \<Longrightarrow> k = 1 \<or> k = 2" by auto
  consider
    (a) "length (extract 1) < 10 \<or> 25 \<le> length (merged lc extract 1)"
  | (b) "\<not> (length (extract 1) < 10 \<or> 25 \<le> length (merged lc extract 1))"
        "length (extract 2) < 10 \<or> 25 \<le> length (merged lc extract 2)"
  | (c) "\<not> (length (extract 1) < 10 \<or> 25 \<le> length (merged lc extract 1))"
        "\<not> (length (extract 2) < 10 \<or> 25 \<le> length (merged lc extract 2))"
    by blast
  then show ?thesis
  proof cases
    case a
    then have "extraction_loop lc extract 0 [] = (merged lc extract 1, 1)"
      by (simp only: loop_from_0 if_True)
    with a show ?thesis by (simp del: merged.simps One_nat_def)
  next
    case b
    then have "extraction_loop lc extract 0 [] = (merged lc extract 2, 2)"
      by (simp only: loop_from_0 if_True if_False)
    with b show ?thesis by (auto simp del: merged.simps One_nat_def dest: two)
  next
    case c
    then have "extraction_loop lc extract 0 [] = (merged lc extract 3, 3)"
      by (simp only: loop_from_0 if_False)
    with c show ?thesis by (auto simp del: merged.simps One_nat_def dest: three)
  qed
qed

text \<open>
  A first call that returns three items, two of them the same word up to case: one call,
  two words. And ten different words followed by one: the theorem leaves two calls only.
\<close>

theorem extraction_loop_stops_witness:
  "extraction_loop ascii_lower
     (\<lambda>n. [item_of (js ''vivid''), item_of (js ''Vivid''), item_of (js ''serene'')]) 0 [] =
     ([item_of (js ''vivid''), item_of (js ''serene'')], 1) \<and>
   snd (extraction_loop ascii_lower ten_then_one 0 []) = 2"
proof
  let ?ex = "\<lambda>n::nat. [item_of (js ''vivid''), item_of (js ''Vivid''), item_of (js ''serene'')]"
  note t = extraction_loop_stops [of ascii_lower ?ex]
  have h: "length (?ex 1) < 10" by simp
  have m: "merged ascii_lower ?ex 1 = [item_of (js ''vivid''), item_of (js ''serene'')]"
    by code_simp
  from t have "length (?ex 1) < 10 \<longrightarrow> snd (extraction_loop ascii_lower ?ex 0 []) = 1"
    by (elim conjE)
  with h have n: "snd (extraction_loop ascii_lower ?ex 0 []) = 1" by (rule rev_mp)
  from t have "fst (extraction_loop ascii_lower ?ex 0 []) =
      merged ascii_lower ?ex (snd (extraction_loop ascii_lower ?ex 0 []))"
    by (elim conjE)
  with n m have "fst (extraction_loop ascii_lower ?ex 0 []) =
      [item_of (js ''vivid''), item_of (js ''serene'')]" by (simp only:)
  with n show "extraction_loop ascii_lower ?ex 0 [] =
      ([item_of (js ''vivid''), item_of (js ''serene'')], 1)"
    by (simp only: prod_eq_iff fst_conv snd_conv simp_thms)
next
  let ?n = "snd (extraction_loop ascii_lower ten_then_one 0 [])"
  note t = extraction_loop_stops [of ascii_lower ten_then_one]
  have l1: "length (ten_then_one 1) = 10" and l2: "length (ten_then_one 2) = 1"
    by (simp_all add: ten_then_one_def)
  have m1: "length (merged ascii_lower ten_then_one 1) = 10"
    by code_simp
  from t have lo: "1 \<le> ?n" by (elim conjE)
  from t have hi: "?n \<le> 3" by (elim conjE)
  from t have f: "fst (extraction_loop ascii_lower ten_then_one 0 []) =
      merged ascii_lower ten_then_one ?n"
    by (elim conjE)
  from t have stop: "?n = 3 \<or> length (ten_then_one ?n) < 10 \<or>
      25 \<le> length (fst (extraction_loop ascii_lower ten_then_one 0 []))"
    by (elim conjE)
  from t have before: "\<forall>k. 1 \<le> k \<and> k < ?n \<longrightarrow>
      10 \<le> length (ten_then_one k) \<and> length (merged ascii_lower ten_then_one k) < 25"
    by (elim conjE)
  have "?n \<noteq> 1"
  proof
    assume "?n = 1"
    with stop f l1 m1 show False by (simp del: merged.simps One_nat_def)
  qed
  moreover have "?n \<noteq> 3"
  proof
    assume "?n = 3"
    with before have "10 \<le> length (ten_then_one 2)" by simp
    with l2 show False by simp
  qed
  ultimately show "?n = 2" using lo hi by arith
qed

text \<open>
  Claim C3 as stated fails when the items of a call repeat: a first call that returns the
  same word ten times gives one new word, fewer than 10, and yet the loop goes on to three
  calls, because it compares the length of the result, not the number of new items.
\<close>

theorem extraction_loop_counterexample:
  "length (merged ascii_lower (\<lambda>n. replicate 10 (item_of (js ''vivid''))) 1) = 1 \<and>
   snd (extraction_loop ascii_lower (\<lambda>n. replicate 10 (item_of (js ''vivid''))) 0 []) = 3"
  by code_simp

section \<open>Properties of deleting a song\<close>

text \<open>
  Claim C4, as amended. Deleting a song removes the songs with its id, removes exactly the
  sources whose \<open>songTitle\<close> is its title, and removes exactly the words that had a source
  with that title and have no source left afterwards, keeping the order of the rest.
  Every word that still has a source survives, and so does every word that had no source
  at all before the deletion.
\<close>

theorem handleDeleteSong_cascade:
  "songs (handleDeleteSong song st) = filter (\<lambda>s. song_id s \<noteq> song_id song) (songs st) \<and>
   sources (handleDeleteSong song st) = filter (\<lambda>s. songTitle s \<noteq> title song) (sources st) \<and>
   words (handleDeleteSong song st) =
     filter (\<lambda>w. \<not> ((\<exists>s \<in> set (sources st). wordId s = w_id w \<and> songTitle s = title song) \<and>
                    (\<forall>s \<in> set (sources (handleDeleteSong song st)). wordId s \<noteq> w_id w)))
       (words st) \<and>
   (\<forall>w \<in> set (words st).
      (\<exists>s \<in> set (sources (handleDeleteSong song st)). wordId s = w_id w) \<longrightarrow>
      w \<in> set (words (handleDeleteSong song st))) \<and>
   (\<forall>w \<in> set (words st).
      (\<forall>s \<in> set (sources st). wordId s \<noteq> w_id w) \<longrightarrow>
      w \<in> set (words (handleDeleteSong song st)))"
proof -
  have w: "words (handleDeleteSong song st) =
     filter (\<lambda>w. \<not> ((\<exists>s \<in> set (sources st). wordId s = w_id w \<and> songTitle s = title song) \<and>
                    (\<forall>s \<in> set (sources (handleDeleteSong song st)). wordId s \<noteq> w_id w)))
       (words st)"
    unfolding handleDeleteSong_def Let_def Library.select_convs
    by (rule filter_cong [OF refl]) (auto simp: image_iff)
  have s: "sources (handleDeleteSong song st) = filter (\<lambda>s. songTitle s \<noteq> title song) (sources st)"
    by (simp add: handleDeleteSong_def Let_def)
  have g: "songs (handleDeleteSong song st) = filter (\<lambda>s. song_id s \<noteq> song_id song) (songs st)"
    by (simp add: handleDeleteSong_def Let_def)
  have a: "\<forall>w \<in> set (words st).
      (\<exists>s \<in> set (sources (handleDeleteSong song st)). wordId s = w_id w) \<longrightarrow>
      w \<in> set (words (handleDeleteSong song st))"
    unfolding w by auto
  have b: "\<forall>w \<in> set (words st).
      (\<forall>s \<in> set (sources st). wordId s \<noteq> w_id w) \<longrightarrow>
      w \<in> set (words (handleDeleteSong song st))"
    unfolding w by auto
  from g s w a b show ?thesis by (intro conjI)
qed

text \<open>Deleting song A from the library of two songs: word 1 goes, word 2 (also in song B) and word 3 (in no song) stay.\<close>

theorem handleDeleteSong_cascade_witness:
  "handleDeleteSong (song_of (js ''10'') (js ''A'')) library0 =
     \<lparr>songs = [song_of (js ''20'') (js ''B'')],
      sources = [source_of (js ''s3'') (js ''2'') (js ''B'')],
      words = [word_of (js ''2'') (js ''serene''), word_of (js ''3'') (js ''linger'')]\<rparr>"
proof -
  note t = handleDeleteSong_cascade [of "song_of (js ''10'') (js ''A'')" library0]
  from t have g: "songs (handleDeleteSong (song_of (js ''10'') (js ''A'')) library0) =
      [song_of (js ''20'') (js ''B'')]"
    by (simp add: library0_def song_of_def js_def)
  from t have s: "sources (handleDeleteSong (song_of (js ''10'') (js ''A'')) library0) =
      [source_of (js ''s3'') (js ''2'') (js ''B'')]"
    by (simp add: library0_def song_of_def source_of_def js_def)
  from t have "words (handleDeleteSong (song_of (js ''10'') (js ''A'')) library0) =
     filter (\<lambda>w. \<not> ((\<exists>s \<in> set (sources library0). wordId s = w_id w \<and>
                         songTitle s = title (song_of (js ''10'') (js ''A''))) \<and>
                    (\<forall>s \<in> set (sources (handleDeleteSong (song_of (js ''10'') (js ''A'')) library0)).
                        wordId s \<noteq> w_id w)))
       (words library0)"
    by (elim conjE)
  then have w: "words (handleDeleteSong (song_of (js ''10'') (js ''A'')) library0) =
      [word_of (js ''2'') (js ''serene''), word_of (js ''3'') (js ''linger'')]"
    unfolding s by (simp add: library0_def song_of_def source_of_def word_of_def js_def)
  from g s w show ?thesis by (cases "handleDeleteSong (song_of (js ''10'') (js ''A'')) library0") simp
qed

text \<open>
  Claim C4 as stated fails for a word without any source: it has no source left after the
  deletion, and it is kept.
\<close>

theorem handleDeleteSong_orphan_counterexample:
  "word_of (js ''3'') (js ''linger'') \<in> set (words library0) \<and>
   filter (\<lambda>s. wordId s = js ''3'')
     (sources (handleDeleteSong (song_of (js ''10'') (js ''A'')) library0)) = [] \<and>
   word_of (js ''3'') (js ''linger'') \<in>
     set (words (handleDeleteSong (song_of (js ''10'') (js ''A'')) library0))"
  by (simp add: handleDeleteSong_def Let_def library0_def song_of_def source_of_def
      word_of_def js_def)

section \<open>Properties of submitting a practice answer\<close>

lemma currentWord_isEvaluating:
  "currentWord (st\<lparr>isEvaluating := b\<rparr>) = currentWord st"
  by (simp add: currentWord_def)

text \<open>
  Claim C5. For a submission that passes the guard, on a current word, whose evaluator call
  returns: the result shown is the evaluator's (in the fill and translate modes) or the
  local comparison's; if its score is at least 70, no wrong answer is appended and the
  score counter goes up by one; if its score is below 70 and it is not correct, the counter
  is unchanged and one wrong answer is appended, with that score, the trimmed submitted
  answer and the correct answer (the word of the translate question, else the current word).
\<close>

theorem submitPracticeAnswer_threshold:
  assumes accepted: "\<not> ((practiceSentence st = None \<and> practiceMode st \<noteq> Translate) \<or>
                        trim (userAnswer st) = [])"
    and word: "currentWord st = Some w"
    and ev: "evaluated = Inr r0"
    and out: "st' = fst (submitPracticeAnswer lc evaluated newId now st)"
  shows "\<exists>r. practiceResult st' = Some r \<and>
      snd (submitPracticeAnswer lc evaluated newId now st) = None \<and>
      (practiceMode st = Fill \<or> (practiceMode st = Translate \<and> translateQuestion st \<noteq> None)
         \<longrightarrow> r = r0) \<and>
      (r_score r \<ge> 70 \<longrightarrow>
         wrongAnswers st' = wrongAnswers st \<and> practiceScore st' = practiceScore st + 1) \<and>
      (r_score r < 70 \<and> \<not> r_isCorrect r \<longrightarrow>
         practiceScore st' = practiceScore st \<and>
         (\<exists>wa. wrongAnswers st' = wrongAnswers st @ [wa] \<and>
               wa_score wa = r_score r \<and>
               wa_userAnswer wa = trim (userAnswer st) \<and>
               wa_correctAnswer wa =
                 (case translateQuestion st of
                    Some q \<Rightarrow> if practiceMode st = Translate then tq_word q else w_word w
                  | None \<Rightarrow> w_word w) \<and>
               wa_wordId wa = w_id w))"
proof (cases "practiceMode st = Translate \<and> translateQuestion st \<noteq> None")
  case True
  then obtain q where q: "translateQuestion st = Some q" by auto
  with True accepted word ev out show ?thesis
    by (cases "r_isCorrect r0 \<or> r_score r0 \<ge> 70")
       (auto simp: submitPracticeAnswer_def submit_try_def currentWord_isEvaluating Let_def)
next
  case nt: False
  show ?thesis
  proof (cases "practiceMode st = Fill")
    case True
    with accepted obtain ps where ps: "practiceSentence st = Some ps" by auto
    with True accepted word ev out show ?thesis
      by (cases "r_isCorrect r0 \<or> r_score r0 \<ge> 70")
         (auto simp: submitPracticeAnswer_def submit_try_def currentWord_isEvaluating Let_def
               split: option.splits)
  next
    case False
    with nt accepted word ev out show ?thesis
      by (cases "lc (trim (userAnswer st)) = lc (w_word w)")
         (auto simp: submitPracticeAnswer_def submit_try_def currentWord_isEvaluating Let_def
               split: option.splits)
  qed
qed


text \<open>The fill-in-blank question above, scored 85 and scored 40.\<close>

theorem submitPracticeAnswer_threshold_witness:
  "wrongAnswers (fst (submitPracticeAnswer ascii_lower
       (Inr \<lparr>r_isCorrect = True, r_score = 85, r_feedback = js ''good''\<rparr>) (js ''7'') 7 practice0)) = [] \<and>
   practiceScore (fst (submitPracticeAnswer ascii_lower
       (Inr \<lparr>r_isCorrect = True, r_score = 85, r_feedback = js ''good''\<rparr>) (js ''7'') 7 practice0)) = 3 \<and>
   practiceScore (fst (submitPracticeAnswer ascii_lower
       (Inr \<lparr>r_isCorrect = False, r_score = 40, r_feedback = js ''no''\<rparr>) (js ''7'') 7 practice0)) = 2 \<and>
   (\<exists>wa. wrongAnswers (fst (submitPracticeAnswer ascii_lower
       (Inr \<lparr>r_isCorrect = False, r_score = 40, r_feedback = js ''no''\<rparr>) (js ''7'') 7 practice0)) = [wa] \<and>
      wa_score wa = 40 \<and> wa_userAnswer wa = js ''vivd'' \<and> wa_correctAnswer wa = js ''vivid'')"
proof -
  let ?good = "\<lparr>r_isCorrect = True, r_score = 85, r_feedback = js ''good''\<rparr>"
  let ?bad = "\<lparr>r_isCorrect = False, r_score = 40, r_feedback = js ''no''\<rparr>"
  let ?w = "word_of (js ''1'') (js ''vivid'')"
  have tr: "trim (userAnswer practice0) = js ''vivd''"
    by (simp add: practice0_def trim_def is_space_def js_def)
  have acc: "\<not> ((practiceSentence practice0 = None \<and> practiceMode practice0 \<noteq> Translate) \<or>
                trim (userAnswer practice0) = [])"
    unfolding tr by (simp add: practice0_def js_def)
  have cw: "currentWord practice0 = Some ?w"
    by (simp add: currentWord_def practice0_def)
  have m: "practiceMode practice0 = Fill" "translateQuestion practice0 = None"
    "wrongAnswers practice0 = []" "practiceScore practice0 = 2"
    by (simp_all add: practice0_def)
  have w: "w_word ?w = js ''vivid''"
    by (simp add: word_of_def)
  from submitPracticeAnswer_threshold [where st = practice0 and w = ?w and evaluated = "Inr ?good"
      and ?r0.0 = ?good and lc = ascii_lower and newId = "js ''7''" and now = 7, OF acc cw refl refl]
  have a: "wrongAnswers (fst (submitPracticeAnswer ascii_lower (Inr ?good) (js ''7'') 7 practice0)) = [] \<and>
   practiceScore (fst (submitPracticeAnswer ascii_lower (Inr ?good) (js ''7'') 7 practice0)) = 3"
    by (auto simp: m)
  from submitPracticeAnswer_threshold [where st = practice0 and w = ?w and evaluated = "Inr ?bad"
      and ?r0.0 = ?bad and lc = ascii_lower and newId = "js ''7''" and now = 7, OF acc cw refl refl]
  have b: "practiceScore (fst (submitPracticeAnswer ascii_lower (Inr ?bad) (js ''7'') 7 practice0)) = 2 \<and>
   (\<exists>wa. wrongAnswers (fst (submitPracticeAnswer ascii_lower (Inr ?bad) (js ''7'') 7 practice0)) = [wa] \<and>
      wa_score wa = 40 \<and> wa_userAnswer wa = js ''vivd'' \<and> wa_correctAnswer wa = js ''vivid'')"
    by (auto simp: m tr w)
  from a b show ?thesis by (intro conjI) (elim conjE, assumption)+
qed

section \<open>Properties of the template parser\<close>

lemmas class_defs = is_space_def is_digit_def dot_def is_line_terminator_def not_quote_def
  other_case_def

lemmas parser_defs = parseTranslationResponse_def score_rx_def correct_rx_def reason_rx_def
  lit_i_def trim_def parseInt10_def captured_def cannot_evaluate_def

text \<open>
  Claim C6. On the text of the scenario the parser yields \<open>isCorrect\<close> true, the score 72,
  the correct answer \<open>the answer\<close> and the four-character reason; and on every text
  \<open>isCorrect\<close> holds exactly when the parsed score is at least 70.
\<close>

theorem parseTranslationResponse_scenario:
  "parseTranslationResponse scenario_text u =
     \<lparr>isCorrect = True, score = 72, correctAnswer = js ''the answer'',
      feedback = [0x8BED, 0x6CD5, 0x6B63, 0x786E]\<rparr> \<and>
   isCorrect (parseTranslationResponse t u) = (score (parseTranslationResponse t u) \<ge> 70)"
proof
  show "parseTranslationResponse scenario_text u =
     \<lparr>isCorrect = True, score = 72, correctAnswer = js ''the answer'',
      feedback = [0x8BED, 0x6CD5, 0x6B63, 0x786E]\<rparr>"
    by (simp add: parser_defs class_defs scenario_text_def js_def)
  show "isCorrect (parseTranslationResponse t u) = (score (parseTranslationResponse t u) \<ge> 70)"
    by (simp add: parseTranslationResponse_def Let_def)
qed

text \<open>A score of 69, in lower case and with spaces around the slash, is read and does not pass.\<close>

theorem parseTranslationResponse_scenario_witness:
  "isCorrect (parseTranslationResponse (js ''score: 69 / 100'') []) = False \<and>
   score (parseTranslationResponse (js ''score: 69 / 100'') []) = 69"
  using parseTranslationResponse_scenario [of "[]" "js ''score: 69 / 100''"]
  by (simp add: parser_defs class_defs js_def)

lemma rx_search_sound:
  "rx_search rx t = Some m \<Longrightarrow> \<exists>a s. t = a @ s \<and> rx_match rx s = Some m"
proof (induction t)
  case Nil
  then show ?case by simp
next
  case (Cons x xs)
  show ?case
  proof (cases "rx_match rx (x # xs)")
    case None
    with Cons.prems have "rx_search rx xs = Some m" by simp
    from Cons.IH [OF this] obtain a s where "xs = a @ s" "rx_match rx s = Some m" by auto
    then have "x # xs = (x # a) @ s \<and> rx_match rx s = Some m" by simp
    then show ?thesis by (intro exI)
  next
    case (Some m')
    with Cons.prems have "x # xs = [] @ (x # xs) \<and> rx_match rx (x # xs) = Some m" by simp
    then show ?thesis by (intro exI)
  qed
qed

lemma lit_i_match:
  "rx_match (lit_i w @ r) s = Some m \<Longrightarrow> c \<in> set w \<Longrightarrow>
   of_char c \<in> set s \<or> other_case (of_char c) \<in> set s"
proof (induction w arbitrary: s m)
  case Nil
  then show ?case by simp
next
  case (Cons d w)
  from Cons.prems(1) obtain x xs where s: "s = x # xs"
    by (cases s) (auto simp: lit_i_def)
  with Cons.prems(1) have x: "x = of_char d \<or> x = other_case (of_char d)"
    by (auto simp: lit_i_def split: if_splits)
  from s Cons.prems(1) x obtain m' where m': "rx_match (lit_i w @ r) xs = Some m'"
    by (auto simp: lit_i_def split: if_splits)
  show ?case
  proof (cases "c = d")
    case True
    with x s show ?thesis by auto
  next
    case False
    with Cons.prems(2) have "c \<in> set w" by simp
    from Cons.IH [OF m' this] s show ?thesis by auto
  qed
qed

lemma colon_needed:
  assumes "CHR '':'' \<in> set w" and "0x3A \<notin> set t"
  shows "rx_search (lit_i w @ r) t = None"
proof (cases "rx_search (lit_i w @ r) t")
  case None
  then show ?thesis .
next
  case (Some m)
  from rx_search_sound [OF this] obtain a s where t: "t = a @ s"
    and "rx_match (lit_i w @ r) s = Some m" by auto
  from lit_i_match [OF this(2) assms(1)] have "(0x3A :: code_unit) \<in> set s"
    by (simp add: other_case_def)
  with t assms(2) show ?thesis by simp
qed

lemma no_colon_no_match:
  assumes "0x3A \<notin> set t"
  shows "rx_search score_rx t = None" and "rx_search correct_rx t = None"
    and "rx_search reason_rx t = None"
  using assms by (simp_all add: score_rx_def correct_rx_def reason_rx_def colon_needed)

text \<open>
  Claim C7. On every text the parser returns a result whose fields depend each on its own
  pattern only: the score is 0 when the score pattern does not match and the parsed number
  of its group otherwise; the correct answer is empty when the correct pattern does not
  match and its group otherwise; the feedback is the generic message when the reason
  pattern does not match and its trimmed group otherwise. In particular a text without a
  colon gives all three defaults.
\<close>

theorem parseTranslationResponse_degrades:
  "(rx_search score_rx t = None \<longrightarrow> score (parseTranslationResponse t u) = 0) \<and>
   (rx_search correct_rx t = None \<longrightarrow> correctAnswer (parseTranslationResponse t u) = []) \<and>
   (rx_search reason_rx t = None \<longrightarrow> feedback (parseTranslationResponse t u) = cannot_evaluate) \<and>
   (\<forall>m. rx_search score_rx t = Some m \<longrightarrow>
      score (parseTranslationResponse t u) = parseInt10 (group1 m)) \<and>
   (\<forall>m. rx_search correct_rx t = Some m \<longrightarrow>
      correctAnswer (parseTranslationResponse t u) = group1 m) \<and>
   (\<forall>m. rx_search reason_rx t = Some m \<longrightarrow>
      feedback (parseTranslationResponse t u) = trim (group1 m)) \<and>
   (0x3A \<notin> set t \<longrightarrow>
      parseTranslationResponse t u =
        \<lparr>isCorrect = False, score = 0, correctAnswer = [], feedback = cannot_evaluate\<rparr>)"
  by (simp add: parseTranslationResponse_def Let_def no_colon_no_match)

text \<open>A text without any field, and a text with the score line only.\<close>

theorem parseTranslationResponse_degrades_witness:
  "parseTranslationResponse (js ''no verdict'') [] =
     \<lparr>isCorrect = False, score = 0, correctAnswer = [], feedback = cannot_evaluate\<rparr> \<and>
   rx_search correct_rx (js ''Score: 85/100'') = None \<and>
   rx_search reason_rx (js ''Score: 85/100'') = None \<and>
   parseTranslationResponse (js ''Score: 85/100'') [] =
     \<lparr>isCorrect = True, score = 85, correctAnswer = [], feedback = cannot_evaluate\<rparr>"
  using parseTranslationResponse_degrades [of "js ''no verdict''" "[]"]
    parseTranslationResponse_degrades [of "js ''Score: 85/100''" "[]"]
  by (simp add: parser_defs class_defs js_def)

section \<open>Properties of the storage service\<close>

text \<open>
  Claim C9, as amended. On a storage whose \<open>setItem\<close> of the words key resolves and whose
  \<open>getItem\<close> of it resolves, for a value that \<open>JSON.stringify\<close> takes to a non-empty
  text and \<open>JSON.parse\<close> takes back to the value, \<open>getWords\<close> after \<open>saveWords\<close> returns
  the value written.
\<close>

theorem storage_round_trip:
  assumes "setItem_resolves a WORDS_KEY (JSON_stringify v)"
    and "getItem_resolves a WORDS_KEY"
    and "JSON_parse (JSON_stringify v) = Inr v"
    and "JSON_stringify v \<noteq> []"
  shows "getWords JSON_parse (saveWords JSON_stringify a v) = v"
  using assms
  by (simp add: getWords_def saveWords_def get_collection_def save_collection_def
      setItem_def getItem_def)

text \<open>One word written to the empty working storage and read back.\<close>

theorem storage_round_trip_witness:
  "getWords parse_table (saveWords stringify_table working_storage one_word) = one_word"
proof (rule storage_round_trip)
  show "setItem_resolves working_storage WORDS_KEY (stringify_table one_word)"
    by (simp add: working_storage_def)
  show "getItem_resolves working_storage WORDS_KEY"
    by (simp add: working_storage_def)
  show "parse_table (stringify_table one_word) = Inr one_word"
    by (simp add: parse_table_def stringify_table_def)
  show "stringify_table one_word \<noteq> []"
    by (simp add: stringify_table_def one_word_text_def)
qed

text \<open>
  Claim C9 as stated fails on a storage that rejects the write: \<open>saveWords\<close> catches the
  rejection and returns normally, nothing is stored, and \<open>getWords\<close> reads back the empty
  list instead of the word written, although the value is one that the JSON functions
  take to text and back.
\<close>

theorem storage_rejected_write_counterexample:
  "parse_table (stringify_table one_word) = Inr one_word \<and>
   getWords parse_table (saveWords stringify_table rejecting_storage one_word) = JArray [] \<and>
   getWords parse_table (saveWords stringify_table rejecting_storage one_word) \<noteq> one_word"
  by (simp add: getWords_def saveWords_def get_collection_def save_collection_def setItem_def
      getItem_def rejecting_storage_def parse_table_def stringify_table_def one_word_def)

text \<open>
  A rejected write is caught and leaves the storage as it was; writing the sources or the
  songs does not change what \<open>getWords\<close> reads.
\<close>

lemma save_rejected:
  "\<not> setItem_resolves a WORDS_KEY (JSON_stringify v) \<Longrightarrow> saveWords JSON_stringify a v = a"
  by (simp add: saveWords_def save_collection_def setItem_def)

lemma save_other_keys:
  "getWords JSON_parse (saveSources JSON_stringify a v) = getWords JSON_parse a"
  "getWords JSON_parse (saveSongs JSON_stringify a v) = getWords JSON_parse a"
  by (simp_all add: getWords_def saveSources_def saveSongs_def get_collection_def
      save_collection_def setItem_def getItem_def WORDS_KEY_def SOURCES_KEY_def SONGS_KEY_def js_def)

end
